theory Spec2Isabelle
  imports Main "HOL-Library.Sublist"
begin

section \<open>Data model of server.js\<close>

text \<open>
  The two mongoose schemas. A stored User has the four String paths of
  \<^verbatim>\<open>userSchema\<close>; a stored Contact has the three String paths of
  \<^verbatim>\<open>contactSchema\<close> and the two timestamps that
  \<^verbatim>\<open>{ timestamps: true }\<close> adds. The \<^verbatim>\<open>_id\<close> and
  \<^verbatim>\<open>__v\<close> paths that mongoose adds to every document are left out.
\<close>

record user =
  firstName :: string
  lastName :: string
  email :: string
  password :: string

record contact =
  name :: string
  email :: string
  message :: string
  createdAt :: nat
  updatedAt :: nat

text \<open>
  The MongoDB database behind the mongoose connection: the two collections in
  insertion order, and whether the connection is usable. The connection promise
  of the source only logs a failure (\<^verbatim>\<open>.catch((err) => console.error(...))\<close>),
  so the process serves requests also when the database cannot be reached; every
  awaited model operation then rejects.
\<close>

record store =
  connected :: bool
  users :: "user list"
  contacts :: "contact list"

text \<open>What an awaited call can reject with; every handler catches all of them alike.\<close>

datatype error =
  StorageError | ValidationError | DuplicateKeyError | BcryptError | UpstreamError

text \<open>
  A JSON object whose properties hold text: a property that is absent
  (\<^verbatim>\<open>undefined\<close> after destructuring) is \<open>None\<close>. The bodies of
  the contact, signup and login requests and the objects given to the model
  constructors are of this type; properties of another JSON type are outside the model.
\<close>

type_synonym doc = "string \<rightharpoonup> string"

text \<open>
  The response a handler sends: \<^verbatim>\<open>res.status(n).json(b)\<close>. The bodies of the
  source are \<^verbatim>\<open>{ message }\<close>, \<^verbatim>\<open>{ message, name }\<close>, the array of
  contacts, and the data relayed from the prediction service.
\<close>

datatype 'j body =
  Message string
  | MessageName string string
  | Contacts "contact list"
  | Data 'j

record 'j response =
  status :: nat
  body :: "'j body"

definition json :: "nat \<Rightarrow> 'j body \<Rightarrow> 'j response" where
  "json n b = \<lparr>status = n, body = b\<rparr>"

section \<open>The libraries the handlers call\<close>

subsection \<open>mongoose\<close>

text \<open>
  \<^verbatim>\<open>required: true\<close> on a String path: the validator rejects an absent value and
  the empty string.
\<close>

definition required :: "string option \<Rightarrow> bool" where
  "required v = (case v of None \<Rightarrow> False | Some t \<Rightarrow> t \<noteq> [])"

text \<open>\<^verbatim>\<open>User.findOne({ email })\<close>: the first document whose email equals the given text.\<close>

definition User_findOne :: "store \<Rightarrow> string option \<Rightarrow> error + user option" where
  "User_findOne s e =
     (if connected s then Inr (find (\<lambda>u. Some (user.email u) = e) (users s))
      else Inl StorageError)"

text \<open>
  \<^verbatim>\<open>new User({...}).save()\<close>: validation of the required paths, then the insert,
  which the unique index on \<^verbatim>\<open>email\<close> rejects when the email is already stored.
\<close>

definition User_validate :: "doc \<Rightarrow> error + user" where
  "User_validate d =
     (if required (d ''firstName'') \<and> required (d ''lastName'')
         \<and> required (d ''email'') \<and> required (d ''password'')
      then Inr \<lparr>firstName = the (d ''firstName''), lastName = the (d ''lastName''),
                email = the (d ''email''), password = the (d ''password'')\<rparr>
      else Inl ValidationError)"

definition User_save :: "store \<Rightarrow> doc \<Rightarrow> error + store" where
  "User_save s d =
     (case User_validate d of
        Inl err \<Rightarrow> Inl err
      | Inr u \<Rightarrow>
          if \<not> connected s then Inl StorageError
          else if user.email u \<in> user.email ` set (users s) then Inl DuplicateKeyError
          else Inr (s\<lparr>users := users s @ [u]\<rparr>))"

text \<open>\<^verbatim>\<open>new Contact({...}).save()\<close> at time \<open>now\<close>, and \<^verbatim>\<open>Contact.find()\<close>.\<close>

definition Contact_validate :: "nat \<Rightarrow> doc \<Rightarrow> error + contact" where
  "Contact_validate now d =
     (if required (d ''name'') \<and> required (d ''email'') \<and> required (d ''message'')
      then Inr \<lparr>name = the (d ''name''), email = the (d ''email''),
                message = the (d ''message''), createdAt = now, updatedAt = now\<rparr>
      else Inl ValidationError)"

definition Contact_save :: "nat \<Rightarrow> store \<Rightarrow> doc \<Rightarrow> error + store" where
  "Contact_save now s d =
     (case Contact_validate now d of
        Inl err \<Rightarrow> Inl err
      | Inr c \<Rightarrow>
          if \<not> connected s then Inl StorageError
          else Inr (s\<lparr>contacts := contacts s @ [c]\<rparr>))"

definition Contact_find :: "store \<Rightarrow> error + contact list" where
  "Contact_find s = (if connected s then Inr (contacts s) else Inl StorageError)"

subsection \<open>bcrypt\<close>

text \<open>
  The bcrypt package is not part of the repository; the handlers are modelled over
  any pair of functions. \<open>hash b p r\<close> is what \<^verbatim>\<open>bcrypt.hash(p, r)\<close> resolves
  with in the request at hand (the salt it draws is part of \<open>b\<close>), and
  \<open>compare b p h\<close> is what \<^verbatim>\<open>bcrypt.compare(p, h)\<close> resolves with. Both calls
  reject when the data argument is \<^verbatim>\<open>undefined\<close>.
\<close>

record bcrypt =
  hash :: "string \<Rightarrow> nat \<Rightarrow> string"
  compare :: "string \<Rightarrow> string \<Rightarrow> bool"

definition bcrypt_hash :: "bcrypt \<Rightarrow> string option \<Rightarrow> nat \<Rightarrow> error + string" where
  "bcrypt_hash b d rounds =
     (case d of None \<Rightarrow> Inl BcryptError | Some p \<Rightarrow> Inr (hash b p rounds))"

definition bcrypt_compare :: "bcrypt \<Rightarrow> string option \<Rightarrow> string \<Rightarrow> error + bool" where
  "bcrypt_compare b d h =
     (case d of None \<Rightarrow> Inl BcryptError | Some p \<Rightarrow> Inr (compare b p h))"

subsection \<open>axios\<close>

text \<open>
  A request on the wire and what comes back for it: no answer, or a response with its
  status, the target of its \<^verbatim>\<open>Location\<close> header when it has one, and its data.
  The network (the adapter) and the limit on redirects are the client's; server.js
  sets neither and runs with the defaults of the axios version installed.
\<close>

record 'j axios_request =
  http_method :: string
  url :: string
  data :: "(string \<rightharpoonup> 'j) option"

datatype 'j axios_result = NetworkError | Timeout | Response nat "string option" 'j

record 'j axios =
  maxRedirects :: nat
  adapter :: "'j axios_request \<Rightarrow> 'j axios_result"

text \<open>
  The default \<^verbatim>\<open>validateStatus\<close>: the promise resolves with the data of a response
  whose status is from 200 to 299 and rejects otherwise.
\<close>

definition validateStatus :: "nat \<Rightarrow> 'j \<Rightarrow> error + 'j" where
  "validateStatus st dat = (if 200 \<le> st \<and> st < 300 then Inr dat else Inl UpstreamError)"

definition settle :: "'j axios_result \<Rightarrow> error + 'j" where
  "settle res =
     (case res of
        Response st location dat \<Rightarrow> validateStatus st dat
      | _ \<Rightarrow> Inl UpstreamError)"

text \<open>
  In Node the client follows redirects: a response with a status from 300 to 399 and a
  \<^verbatim>\<open>Location\<close> header is not handed to the caller but answered with a new request.
  After 301 or 302 a POST becomes a GET without body, after 303 every method but GET and
  HEAD does; otherwise (307, 308) method and body are sent again.
\<close>

definition redirected :: "'j axios_result \<Rightarrow> (nat \<times> string) option" where
  "redirected res =
     (case res of
        Response st location dat \<Rightarrow>
          (case location of
             Some target \<Rightarrow> if 300 \<le> st \<and> st < 400 then Some (st, target) else None
           | None \<Rightarrow> None)
      | _ \<Rightarrow> None)"

definition redirect :: "'j axios_request \<Rightarrow> nat \<Rightarrow> string \<Rightarrow> 'j axios_request" where
  "redirect req st target =
     (if ((st = 301 \<or> st = 302) \<and> http_method req = ''POST'')
         \<or> (st = 303 \<and> http_method req \<noteq> ''GET'' \<and> http_method req \<noteq> ''HEAD'')
      then \<lparr>http_method = ''GET'', url = target, data = None\<rparr>
      else \<lparr>http_method = http_method req, url = target, data = data req\<rparr>)"

text \<open>
  One call of the client with \<open>left\<close> redirects still allowed: the requests it sends,
  in order, and what the promise settles with. A redirect beyond the limit rejects.
\<close>

fun dispatchRequest ::
  "('j axios_request \<Rightarrow> 'j axios_result) \<Rightarrow> nat \<Rightarrow> 'j axios_request
     \<Rightarrow> 'j axios_request list \<times> (error + 'j)" where
  "dispatchRequest net 0 req =
     (case redirected (net req) of
        Some st_target \<Rightarrow> ([req], Inl UpstreamError)
      | None \<Rightarrow> ([req], settle (net req)))"
| "dispatchRequest net (Suc left) req =
     (case redirected (net req) of
        Some st_target \<Rightarrow>
          (let (sent, result) = dispatchRequest net left (redirect req (fst st_target) (snd st_target))
           in (req # sent, result))
      | None \<Rightarrow> ([req], settle (net req)))"

definition axios_post ::
  "'j axios \<Rightarrow> string \<Rightarrow> (string \<rightharpoonup> 'j) \<Rightarrow> 'j axios_request list \<times> (error + 'j)" where
  "axios_post ax u d =
     dispatchRequest (adapter ax) (maxRedirects ax) \<lparr>http_method = ''POST'', url = u, data = Some d\<rparr>"

section \<open>The request handlers\<close>

subsection \<open>POST /api/contact and GET /api/contact\<close>

definition contact_post :: "nat \<Rightarrow> store \<Rightarrow> doc \<Rightarrow> store \<times> 'j response" where
  "contact_post now s req_body =
     (let name = req_body ''name''; email = req_body ''email'';
          message = req_body ''message'';
          newContact = Map.empty(''name'' := name, ''email'' := email, ''message'' := message)
      in case Contact_save now s newContact of
           Inr s' \<Rightarrow> (s', json 201 (Message ''Contact message saved successfully.''))
         | Inl err \<Rightarrow> (s, json 500 (Message ''Error saving contact message.'')))"

definition contact_get :: "store \<Rightarrow> 'j response" where
  "contact_get s =
     (case Contact_find s of
        Inr found \<Rightarrow> json 200 (Contacts found)
      | Inl err \<Rightarrow> json 500 (Message ''Error fetching contact messages.''))"

subsection \<open>POST /api/signup\<close>

text \<open>
  The handler awaits the store twice. \<open>signup_findOne\<close> is the handler up to the
  second await: it ends the request (\<open>Inl\<close>) or leaves the document to save
  (\<open>Inr\<close>). \<open>signup_save\<close> is the rest. Other requests may run between the two;
  \<open>signup\<close> is the handler when none does.
\<close>

definition signup_findOne :: "bcrypt \<Rightarrow> store \<Rightarrow> doc \<Rightarrow> 'j response + doc" where
  "signup_findOne b s req_body =
     (let firstName = req_body ''firstName''; lastName = req_body ''lastName'';
          email = req_body ''email''; password = req_body ''password''
      in case User_findOne s email of
           Inl err \<Rightarrow> Inl (json 500 (Message ''Error registering user.''))
         | Inr (Some existingUser) \<Rightarrow> Inl (json 400 (Message ''User already exists''))
         | Inr None \<Rightarrow>
             (case bcrypt_hash b password 10 of
                Inl err \<Rightarrow> Inl (json 500 (Message ''Error registering user.''))
              | Inr hashedPassword \<Rightarrow>
                  Inr (Map.empty(''firstName'' := firstName, ''lastName'' := lastName,
                         ''email'' := email, ''password'' := Some hashedPassword))))"

definition signup_save :: "store \<Rightarrow> doc \<Rightarrow> store \<times> 'j response" where
  "signup_save s newUser =
     (case User_save s newUser of
        Inr s' \<Rightarrow> (s', json 201 (Message ''User registered successfully''))
      | Inl err \<Rightarrow> (s, json 500 (Message ''Error registering user.'')))"

definition signup :: "bcrypt \<Rightarrow> store \<Rightarrow> doc \<Rightarrow> store \<times> 'j response" where
  "signup b s req_body =
     (case signup_findOne b s req_body of
        Inl res \<Rightarrow> (s, res)
      | Inr newUser \<Rightarrow> signup_save s newUser)"

subsection \<open>POST /api/login\<close>

definition login :: "bcrypt \<Rightarrow> store \<Rightarrow> doc \<Rightarrow> 'j response" where
  "login b s req_body =
     (let email = req_body ''email''; password = req_body ''password''
      in case User_findOne s email of
           Inl err \<Rightarrow> json 500 (Message ''Error logging in.'')
         | Inr None \<Rightarrow> json 401 (Message ''Invalid email or password'')
         | Inr (Some user) \<Rightarrow>
             (case bcrypt_compare b password (user.password user) of
                Inl err \<Rightarrow> json 500 (Message ''Error logging in.'')
              | Inr passwordMatch \<Rightarrow>
                  if \<not> passwordMatch then json 401 (Message ''Invalid email or password'')
                  else json 200 (MessageName ''Login successful'' (user.firstName user))))"

subsection \<open>POST /predict\<close>

text \<open>
  The body of a prediction request holds JSON values of any type \<open>'j\<close>; the handler
  never looks into them. The object literal given to axios has the six properties;
  one whose value is \<^verbatim>\<open>undefined\<close> is not serialised.
\<close>

definition predict_url :: string where
  "predict_url = ''http://localhost:8000/predict''"

definition predict_payload :: "(string \<rightharpoonup> 'j) \<Rightarrow> (string \<rightharpoonup> 'j)" where
  "predict_payload req_body =
     (let age = req_body ''age''; sex = req_body ''sex''; bmi = req_body ''bmi'';
          children = req_body ''children''; smoker = req_body ''smoker'';
          region = req_body ''region''
      in Map.empty(''age'' := age, ''sex'' := sex, ''bmi'' := bmi,
           ''children'' := children, ''smoker'' := smoker, ''region'' := region))"

definition predict_fields :: "string list" where
  "predict_fields = [''age'', ''sex'', ''bmi'', ''children'', ''smoker'', ''region'']"

text \<open>The handler returns the requests it sent to the network and its response.\<close>

definition predict ::
  "'j axios \<Rightarrow> (string \<rightharpoonup> 'j) \<Rightarrow> 'j axios_request list \<times> 'j response" where
  "predict ax req_body =
     (let payload = predict_payload req_body;
          (sent, result) = axios_post ax predict_url payload
      in (sent,
          case result of
            Inr response_data \<Rightarrow> json 200 (Data response_data)
          | Inl err \<Rightarrow> json 500 (Message ''Error processing prediction request'')))"

subsection \<open>The routes\<close>

datatype 'j request =
  POST_contact doc
  | GET_contact
  | POST_signup doc
  | POST_login doc
  | POST_predict "string \<rightharpoonup> 'j"

fun handle ::
  "bcrypt \<Rightarrow> 'j axios \<Rightarrow> nat \<Rightarrow> store \<Rightarrow> 'j request
     \<Rightarrow> store \<times> 'j response" where
  "handle b ax now s (POST_contact req_body) = contact_post now s req_body"
| "handle b ax now s GET_contact = (s, contact_get s)"
| "handle b ax now s (POST_signup req_body) = signup b s req_body"
| "handle b ax now s (POST_login req_body) = (s, login b s req_body)"
| "handle b ax now s (POST_predict req_body) = (s, snd (predict ax req_body))"

section \<open>Example data\<close>

text \<open>
  A stand-in for bcrypt, used only to run the handlers on concrete requests, and the
  signup request of the specification's scenario.
\<close>

definition example_hash :: "string \<Rightarrow> nat \<Rightarrow> string" where
  "example_hash p rounds = ''$2b$'' @ p"

definition example_compare :: "string \<Rightarrow> string \<Rightarrow> bool" where
  "example_compare p h = (h = ''$2b$'' @ p)"

definition example_bcrypt :: bcrypt where
  "example_bcrypt = \<lparr>hash = example_hash, compare = example_compare\<rparr>"

definition empty_store :: store where
  "empty_store = \<lparr>connected = True, users = [], contacts = []\<rparr>"

definition alice :: user where
  "alice = \<lparr>firstName = ''A'', lastName = ''B'', email = ''a@x.com'',
             password = ''$2b$pw1''\<rparr>"

definition alice_store :: store where
  "alice_store = \<lparr>connected = True, users = [alice], contacts = []\<rparr>"

definition down_store :: store where
  "down_store = \<lparr>connected = False, users = [alice], contacts = []\<rparr>"

definition signup_body :: doc where
  "signup_body = [''firstName'' \<mapsto> ''A'', ''lastName'' \<mapsto> ''B'',
                  ''email'' \<mapsto> ''a@x.com'', ''password'' \<mapsto> ''pw1'']"

definition signup_body' :: doc where
  "signup_body' = [''firstName'' \<mapsto> ''C'', ''lastName'' \<mapsto> ''D'',
                   ''email'' \<mapsto> ''a@x.com'', ''password'' \<mapsto> ''pw2'']"

definition alice_doc :: doc where
  "alice_doc = [''firstName'' \<mapsto> ''A'', ''lastName'' \<mapsto> ''B'',
                ''email'' \<mapsto> ''a@x.com'', ''password'' \<mapsto> ''$2b$pw1'']"

definition carol_doc :: doc where
  "carol_doc = [''firstName'' \<mapsto> ''C'', ''lastName'' \<mapsto> ''D'',
                ''email'' \<mapsto> ''a@x.com'', ''password'' \<mapsto> ''$2b$pw2'']"

definition contact_body :: doc where
  "contact_body = [''name'' \<mapsto> ''A'', ''email'' \<mapsto> ''a@x.com'', ''message'' \<mapsto> ''hello'']"

definition predict_body :: "string \<rightharpoonup> string" where
  "predict_body = [''age'' \<mapsto> ''41'', ''sex'' \<mapsto> ''female'', ''bmi'' \<mapsto> ''27.5'',
                   ''children'' \<mapsto> ''2'', ''smoker'' \<mapsto> ''no'', ''region'' \<mapsto> ''southwest'',
                   ''admin'' \<mapsto> ''true'']"

definition predict_body' :: "string \<rightharpoonup> string" where
  "predict_body' = [''age'' \<mapsto> ''41'', ''sex'' \<mapsto> ''female'', ''bmi'' \<mapsto> ''27.5'',
                    ''children'' \<mapsto> ''2'', ''smoker'' \<mapsto> ''no'', ''region'' \<mapsto> ''southwest'']"

definition net_ok :: "string axios_request \<Rightarrow> string axios_result" where
  "net_ok r = Response 200 None ''{charges: 7000}''"


text \<open>A service that answers at \<^verbatim>\<open>/predict/\<close> and redirects \<^verbatim>\<open>/predict\<close> there.\<close>

definition net_redirect :: "string axios_request \<Rightarrow> string axios_result" where
  "net_redirect r =
     (if url r = ''http://localhost:8000/predict''
      then Response 307 (Some ''http://localhost:8000/predict/'') ''moved''
      else Response 200 None ''{charges: 7000}'')"

definition axios_ok :: "string axios" where
  "axios_ok = \<lparr>maxRedirects = 5, adapter = net_ok\<rparr>"


definition axios_redirect :: "string axios" where
  "axios_redirect = \<lparr>maxRedirects = 5, adapter = net_redirect\<rparr>"

definition login_body :: doc where
  "login_body = [''email'' \<mapsto> ''a@x.com'', ''password'' \<mapsto> ''pw1'']"

definition wrong_login_body :: doc where
  "wrong_login_body = [''email'' \<mapsto> ''a@x.com'', ''password'' \<mapsto> ''pw2'']"

definition unknown_login_body :: doc where
  "unknown_login_body = [''email'' \<mapsto> ''b@x.com'', ''password'' \<mapsto> ''pw1'']"

section \<open>Lemmas about the library operations\<close>

lemma find_email_Some:
  "find (\<lambda>u. Some (user.email u) = Some e) us = Some u \<Longrightarrow> u \<in> set us \<and> user.email u = e"
  by (induction us) (auto split: if_splits)

lemma find_email_unique:
  "distinct (map user.email us) \<Longrightarrow> find (\<lambda>u. Some (user.email u) = Some e) us = Some u \<Longrightarrow>
   v \<in> set us \<Longrightarrow> user.email v = e \<Longrightarrow> v = u"
  by (induction us) (auto simp: image_iff split: if_splits dest: find_email_Some)

lemma find_email_None:
  "find (\<lambda>u. Some (user.email u) = Some e) us = None \<Longrightarrow> v \<in> set us \<Longrightarrow> user.email v \<noteq> e"
  by (induction us) (auto split: if_splits)

lemma find_email_None_iff:
  "(find (\<lambda>u. Some (user.email u) = e) us = None) = (e \<notin> Some ` user.email ` set us)"
  by (induction us) auto

lemma User_save_Inr:
  "User_save s d = Inr s' \<Longrightarrow>
     \<exists>fn ln e p. d ''firstName'' = Some fn \<and> d ''lastName'' = Some ln \<and> d ''email'' = Some e
       \<and> d ''password'' = Some p \<and> connected s \<and> e \<notin> user.email ` set (users s)
       \<and> s' = s\<lparr>users := users s @ [\<lparr>firstName = fn, lastName = ln, email = e, password = p\<rparr>]\<rparr>"
  by (auto simp: User_save_def User_validate_def required_def split: option.splits if_splits)

section \<open>Lemmas about the signup handler\<close>

lemma signup_findOne_cases:
  "signup_findOne b s req_body = (out :: 'j response + doc) \<Longrightarrow>
     out = Inl (json 500 (Message ''Error registering user.''))
   \<or> out = Inl (json 400 (Message ''User already exists''))
   \<or> (\<exists>p. connected s \<and> req_body ''password'' = Some p
        \<and> find (\<lambda>u. Some (user.email u) = req_body ''email'') (users s) = None
        \<and> out = Inr (Map.empty(''firstName'' := req_body ''firstName'',
                 ''lastName'' := req_body ''lastName'', ''email'' := req_body ''email'',
                 ''password'' := Some (hash b p 10))))"
  by (auto simp: signup_findOne_def User_findOne_def bcrypt_hash_def Let_def
      split: option.splits if_splits)

lemma signup_400:
  assumes "signup_findOne b s1 req_body = Inl (r :: 'j response)" and "status r = 400"
  shows "connected s1 \<and> req_body ''email'' \<in> Some ` user.email ` set (users s1)
         \<and> r = json 400 (Message ''User already exists'')"
proof (cases "connected s1")
  case False
  with assms show ?thesis
    by (auto simp: signup_findOne_def User_findOne_def json_def Let_def)
next
  case True
  show ?thesis
  proof (cases "find (\<lambda>u. Some (user.email u) = req_body ''email'') (users s1)")
    case None
    with assms True show ?thesis
      by (auto simp: signup_findOne_def User_findOne_def bcrypt_hash_def json_def Let_def
          split: option.splits)
  next
    case (Some u)
    then have "req_body ''email'' \<in> Some ` user.email ` set (users s1)"
      using find_email_None_iff[of "req_body ''email''" "users s1"] by simp
    with assms True Some show ?thesis
      by (auto simp: signup_findOne_def User_findOne_def Let_def)
  qed
qed

lemma signup_save_cases:
  "signup_save s d = (s', res :: 'j response) \<Longrightarrow>
     (s' = s \<and> res = json 500 (Message ''Error registering user.''))
   \<or> (User_save s d = Inr s' \<and> res = json 201 (Message ''User registered successfully''))"
  by (auto simp: signup_save_def split: sum.splits)

text \<open>
  A registration that ends with 201, whatever other requests ran between its lookup
  (on \<open>s1\<close>) and its insert (on \<open>s2\<close>).
\<close>

lemma signup_phases_201:
  assumes f: "signup_findOne b s1 req_body = (Inr d :: 'j response + doc)"
    and sv: "signup_save s2 d = (s', res :: 'j response)" and ok: "status res = 201"
  shows "\<exists>fn ln e p. req_body ''firstName'' = Some fn \<and> req_body ''lastName'' = Some ln
           \<and> req_body ''email'' = Some e \<and> req_body ''password'' = Some p
           \<and> s' = s2\<lparr>users := users s2 @ [\<lparr>firstName = fn, lastName = ln, email = e,
                                            password = hash b p 10\<rparr>]\<rparr>
           \<and> res = json 201 (Message ''User registered successfully'')"
proof -
  from signup_findOne_cases[OF f] obtain p where p: "req_body ''password'' = Some p"
    and d: "d = Map.empty(''firstName'' := req_body ''firstName'',
                 ''lastName'' := req_body ''lastName'', ''email'' := req_body ''email'',
                 ''password'' := Some (hash b p 10))"
    by auto
  from signup_save_cases[OF sv] ok have us: "User_save s2 d = Inr s'"
    and r: "res = json 201 (Message ''User registered successfully'')"
    by (auto simp: json_def)
  from User_save_Inr[OF us] d p r show ?thesis by auto
qed

section \<open>Login\<close>

text \<open>
  C1, as the code has it. The claim reads: login answers 200 exactly when a User with
  that email exists and the password verifies against its stored hash, and answers 401
  in every other case. The handler also has a third outcome, the 500 of its
  \<^verbatim>\<open>catch\<close> block, so the claim holds in this form: when the store is reachable and
  the request carries an email and a password, the status is 200 if and only if the
  (unique) User with exactly that email exists and \<open>compare\<close> accepts the password
  for its stored hash, and every other response is 401 with the message
  \<^verbatim>\<open>Invalid email or password\<close>; when the store is not reachable the response is 500
  with the message \<^verbatim>\<open>Error logging in.\<close>
\<close>

theorem login_succeeds_iff_credentials_match:
  fixes b :: bcrypt and s :: store and req_body :: doc
  defines "res \<equiv> (login b s req_body :: 'j response)"
  assumes "distinct (map user.email (users s))"
  shows "(connected s \<longrightarrow> req_body ''email'' = Some e \<longrightarrow> req_body ''password'' = Some p \<longrightarrow>
            (status res = 200 \<longleftrightarrow>
               (\<exists>u \<in> set (users s). user.email u = e \<and> compare b p (user.password u)))
          \<and> (status res \<noteq> 200 \<longrightarrow> res = json 401 (Message ''Invalid email or password'')))
       \<and> (\<not> connected s \<longrightarrow> res = json 500 (Message ''Error logging in.''))"
proof (intro conjI impI)
  assume c: "connected s" and e: "req_body ''email'' = Some e"
    and p: "req_body ''password'' = Some p"
  show "status res = 200 \<longleftrightarrow>
               (\<exists>u \<in> set (users s). user.email u = e \<and> compare b p (user.password u))"
  proof (cases "find (\<lambda>u. Some (user.email u) = Some e) (users s)")
    case None
    have l: "status res = 401" using c e p None
      by (simp add: res_def login_def User_findOne_def json_def)
    show ?thesis using find_email_None[OF None] l by auto
  next
    case (Some u)
    have l: "status res = 200 \<longleftrightarrow> compare b p (user.password u)"
      using c e p Some
      by (simp add: res_def login_def User_findOne_def json_def bcrypt_compare_def)
    show ?thesis
      using find_email_unique[OF assms(2) Some] find_email_Some[OF Some] l by blast
  qed
  assume "status res \<noteq> 200"
  then show "res = json 401 (Message ''Invalid email or password'')"
    using c e p
    by (auto simp: res_def login_def User_findOne_def json_def bcrypt_compare_def
        split: option.splits if_splits)
next
  assume "\<not> connected s"
  then show "res = json 500 (Message ''Error logging in.'')"
    by (simp add: res_def login_def User_findOne_def)
qed

theorem login_succeeds_iff_credentials_match_witness:
  "distinct (map user.email (users alice_store)) \<and> connected alice_store
   \<and> login_body ''email'' = Some ''a@x.com'' \<and> login_body ''password'' = Some ''pw1''
   \<and> alice \<in> set (users alice_store) \<and> user.email alice = ''a@x.com''
   \<and> compare example_bcrypt ''pw1'' (user.password alice)
   \<and> status (login example_bcrypt alice_store login_body :: unit response) = 200
   \<and> wrong_login_body ''email'' = Some ''a@x.com''
   \<and> wrong_login_body ''password'' = Some ''pw2''
   \<and> status (login example_bcrypt alice_store wrong_login_body :: unit response) \<noteq> 200
   \<and> login example_bcrypt alice_store wrong_login_body
       = (json 401 (Message ''Invalid email or password'') :: unit response)
   \<and> distinct (map user.email (users down_store)) \<and> \<not> connected down_store
   \<and> login example_bcrypt down_store login_body
       = (json 500 (Message ''Error logging in.'') :: unit response)"
proof -
  have d: "distinct (map user.email (users alice_store))"
    by (simp add: alice_store_def)
  have d': "distinct (map user.email (users down_store))"
    by (simp add: down_store_def)
  have ex: "alice \<in> set (users alice_store) \<and> user.email alice = ''a@x.com''
            \<and> compare example_bcrypt ''pw1'' (user.password alice)"
    by (simp add: alice_store_def alice_def example_bcrypt_def example_compare_def)
  have c: "connected alice_store" by (simp add: alice_store_def)
  have b1: "login_body ''email'' = Some ''a@x.com'' \<and> login_body ''password'' = Some ''pw1''"
    by (simp add: login_body_def)
  have b2: "wrong_login_body ''email'' = Some ''a@x.com''
            \<and> wrong_login_body ''password'' = Some ''pw2''"
    by (simp add: wrong_login_body_def)
  have n: "\<not> (\<exists>u \<in> set (users alice_store). user.email u = ''a@x.com''
              \<and> compare example_bcrypt ''pw2'' (user.password u))"
    by (simp add: alice_store_def alice_def example_bcrypt_def example_compare_def)
  have dn: "\<not> connected down_store" by (simp add: down_store_def)
  from login_succeeds_iff_credentials_match
         [OF d, where req_body = login_body and e = "''a@x.com''" and p = "''pw1''"
            and b = example_bcrypt and 'j = unit] c b1 ex
  have 1: "status (login example_bcrypt alice_store login_body :: unit response) = 200"
    by blast
  from login_succeeds_iff_credentials_match
         [OF d, where req_body = wrong_login_body and e = "''a@x.com''" and p = "''pw2''"
            and b = example_bcrypt and 'j = unit] c b2 n
  have 2: "status (login example_bcrypt alice_store wrong_login_body :: unit response) \<noteq> 200
     \<and> login example_bcrypt alice_store wrong_login_body
       = (json 401 (Message ''Invalid email or password'') :: unit response)"
    by blast
  from login_succeeds_iff_credentials_match
         [OF d', where req_body = login_body and b = example_bcrypt and 'j = unit] dn
  have 3: "login example_bcrypt down_store login_body
       = (json 500 (Message ''Error logging in.'') :: unit response)"
    by blast
  show ?thesis using d d' c b1 b2 ex 1 2 3 dn by blast
qed

text \<open>
  The claim C1 as worded fails on a store that cannot be reached: the User exists and
  the password verifies, and the response is 500, neither 200 nor 401.
\<close>

theorem login_unreachable_store_counterexample:
  "connected down_store = False
   \<and> users down_store = [alice] \<and> user.email alice = ''a@x.com''
   \<and> login_body ''email'' = Some ''a@x.com'' \<and> login_body ''password'' = Some ''pw1''
   \<and> compare example_bcrypt ''pw1'' (user.password alice)
   \<and> login example_bcrypt down_store login_body
        = (\<lparr>status = 500, body = Message ''Error logging in.''\<rparr> :: unit response)"
  by (simp add: down_store_def alice_def login_body_def example_bcrypt_def
      example_compare_def login_def User_findOne_def json_def)

text \<open>
  C4: a login for an email that no stored User has, and a login for a stored email with
  a password that \<open>compare\<close> rejects, get the same response: status 401 and the
  message \<^verbatim>\<open>Invalid email or password\<close>.
\<close>

theorem login_failures_indistinguishable:
  fixes b :: bcrypt
  assumes "connected s1" and "req_body1 ''email'' \<notin> Some ` user.email ` set (users s1)"
    and "connected s2"
    and "find (\<lambda>u. Some (user.email u) = req_body2 ''email'') (users s2) = Some u"
    and "req_body2 ''password'' = Some p" and "\<not> compare b p (user.password u)"
  shows "login b s1 req_body1 = (login b s2 req_body2 :: 'j response)
       \<and> login b s1 req_body1 = (json 401 (Message ''Invalid email or password'') :: 'j response)"
proof -
  from assms(2) have "find (\<lambda>u. Some (user.email u) = req_body1 ''email'') (users s1) = None"
    by (simp add: find_email_None_iff)
  then have 1: "login b s1 req_body1 = (json 401 (Message ''Invalid email or password'') :: 'j response)"
    using assms(1) by (simp add: login_def User_findOne_def)
  have 2: "login b s2 req_body2 = (json 401 (Message ''Invalid email or password'') :: 'j response)"
    using assms(3-6) by (simp add: login_def User_findOne_def bcrypt_compare_def)
  from 1 2 show ?thesis by simp
qed

theorem login_failures_indistinguishable_witness:
  "connected alice_store
   \<and> unknown_login_body ''email'' \<notin> Some ` user.email ` set (users alice_store)
   \<and> find (\<lambda>u. Some (user.email u) = wrong_login_body ''email'') (users alice_store) = Some alice
   \<and> wrong_login_body ''password'' = Some ''pw2''
   \<and> \<not> compare example_bcrypt ''pw2'' (user.password alice)
   \<and> login example_bcrypt alice_store unknown_login_body
        = (login example_bcrypt alice_store wrong_login_body :: unit response)
   \<and> login example_bcrypt alice_store unknown_login_body
        = (json 401 (Message ''Invalid email or password'') :: unit response)"
proof -
  have c: "connected alice_store" by (simp add: alice_store_def)
  have n: "unknown_login_body ''email'' \<notin> Some ` user.email ` set (users alice_store)"
    by (simp add: unknown_login_body_def alice_store_def alice_def)
  have f: "find (\<lambda>u. Some (user.email u) = wrong_login_body ''email'') (users alice_store)
             = Some alice"
    by (simp add: wrong_login_body_def alice_store_def alice_def)
  have p: "wrong_login_body ''password'' = Some ''pw2''" by (simp add: wrong_login_body_def)
  have w: "\<not> compare example_bcrypt ''pw2'' (user.password alice)"
    by (simp add: example_bcrypt_def example_compare_def alice_def)
  from login_failures_indistinguishable
         [where ?s1.0 = alice_store and ?s2.0 = alice_store
            and ?req_body1.0 = unknown_login_body and ?req_body2.0 = wrong_login_body
            and u = alice and p = "''pw2''" and b = example_bcrypt and 'j = unit] c n f p w
  show ?thesis by blast
qed

section \<open>Registration\<close>

text \<open>
  C5: when a registration succeeds (the response has status 201), the request carried
  all four fields, and the record appended to the Users collection holds the first
  name, last name and email as supplied and, as its password, the value that
  \<open>hash\<close> returned for the supplied plaintext with cost factor 10.
\<close>

theorem signup_persists_hashed_password:
  assumes "signup b s req_body = (s', res :: 'j response)" and "status res = 201"
  shows "\<exists>fn ln e p. req_body ''firstName'' = Some fn \<and> req_body ''lastName'' = Some ln
           \<and> req_body ''email'' = Some e \<and> req_body ''password'' = Some p
           \<and> users s' = users s @ [\<lparr>firstName = fn, lastName = ln, email = e,
                                      password = hash b p 10\<rparr>]
           \<and> res = json 201 (Message ''User registered successfully'')"
proof (cases "signup_findOne b s req_body :: 'j response + doc")
  case (Inl r)
  with assms(1) have "res = r" by (simp add: signup_def)
  with signup_findOne_cases[OF Inl] assms(2) show ?thesis by (auto simp: json_def)
next
  case (Inr d)
  with assms(1) have "signup_save s d = (s', res)" by (simp add: signup_def)
  from signup_phases_201[OF Inr this assms(2)] show ?thesis by auto
qed

theorem signup_persists_hashed_password_witness:
  "signup example_bcrypt empty_store signup_body
     = (alice_store, (json 201 (Message ''User registered successfully'') :: unit response))
   \<and> status (json 201 (Message ''User registered successfully'') :: unit response) = 201
   \<and> users alice_store = users empty_store @ [\<lparr>firstName = ''A'', lastName = ''B'',
        email = ''a@x.com'', password = hash example_bcrypt ''pw1'' 10\<rparr>]"
proof -
  have r: "signup example_bcrypt empty_store signup_body
     = (alice_store, (json 201 (Message ''User registered successfully'') :: unit response))"
    by (simp add: signup_def signup_findOne_def signup_save_def User_findOne_def
        User_save_def User_validate_def required_def bcrypt_hash_def example_bcrypt_def
        example_hash_def empty_store_def alice_store_def alice_def signup_body_def)
  have st: "status (json 201 (Message ''User registered successfully'') :: unit response) = 201"
    by (simp add: json_def)
  from signup_persists_hashed_password[OF r st]
  show ?thesis using r st by (auto simp: signup_body_def)
qed

text \<open>
  C2, as the code has it. The claim reads: for every registration payload, an email that
  is already stored gives 400 with \<^verbatim>\<open>User already exists\<close> and no write, and a first
  registration for an email gives 201 and one write. Both halves need the store to be
  reachable, and the second needs a payload that passes the schema, so the claim holds
  in this form. On a reachable store: if a User with the same email exists, the response
  is 400 with that message, whatever the other fields are, and the store is unchanged;
  if none exists and the payload has a non-empty first name, last name and email and a
  password (whose hash is not empty), the response is 201 and exactly one User is
  appended; and whenever the response is not 201 the store is unchanged.
\<close>

theorem signup_duplicate_and_first:
  fixes b :: bcrypt and s :: store and req_body :: doc
  defines "out \<equiv> (signup b s req_body :: store \<times> 'j response)"
  assumes "connected s"
  shows "(req_body ''email'' \<in> Some ` user.email ` set (users s) \<longrightarrow>
            out = (s, json 400 (Message ''User already exists'')))
       \<and> (req_body ''email'' \<notin> Some ` user.email ` set (users s) \<longrightarrow>
            req_body ''firstName'' = Some fn \<longrightarrow> fn \<noteq> [] \<longrightarrow>
            req_body ''lastName'' = Some ln \<longrightarrow> ln \<noteq> [] \<longrightarrow>
            req_body ''email'' = Some e \<longrightarrow> e \<noteq> [] \<longrightarrow>
            req_body ''password'' = Some p \<longrightarrow> hash b p 10 \<noteq> [] \<longrightarrow>
            out = (s\<lparr>users := users s @ [\<lparr>firstName = fn, lastName = ln, email = e,
                                           password = hash b p 10\<rparr>]\<rparr>,
                   json 201 (Message ''User registered successfully'')))
       \<and> (status (snd out) \<noteq> 201 \<longrightarrow> fst out = s)"
proof (intro conjI impI)
  assume "req_body ''email'' \<in> Some ` user.email ` set (users s)"
  then have "find (\<lambda>u. Some (user.email u) = req_body ''email'') (users s) \<noteq> None"
    by (simp add: find_email_None_iff)
  then show "out = (s, json 400 (Message ''User already exists''))"
    using assms(2) by (auto simp: out_def signup_def signup_findOne_def User_findOne_def)
next
  assume n: "req_body ''email'' \<notin> Some ` user.email ` set (users s)"
    and f: "req_body ''firstName'' = Some fn" "fn \<noteq> []"
    and l: "req_body ''lastName'' = Some ln" "ln \<noteq> []"
    and e: "req_body ''email'' = Some e" "e \<noteq> []"
    and p: "req_body ''password'' = Some p" "hash b p 10 \<noteq> []"
  from n have fi: "find (\<lambda>u. Some (user.email u) = req_body ''email'') (users s) = None"
    by (simp add: find_email_None_iff)
  from n e have ne: "e \<notin> user.email ` set (users s)" by auto
  have "signup_findOne b s req_body
          = (Inr (Map.empty(''firstName'' := Some fn, ''lastName'' := Some ln,
                 ''email'' := Some e, ''password'' := Some (hash b p 10))) :: 'j response + doc)"
    using assms(2) fi f l e p
    by (simp add: signup_findOne_def User_findOne_def bcrypt_hash_def)
  then show "out = (s\<lparr>users := users s @ [\<lparr>firstName = fn, lastName = ln, email = e,
                                           password = hash b p 10\<rparr>]\<rparr>,
                   json 201 (Message ''User registered successfully''))"
    using assms(2) f l e p ne
    by (simp add: out_def signup_def signup_save_def User_save_def User_validate_def required_def)
next
  assume st: "status (snd out) \<noteq> 201"
  show "fst out = s"
  proof (cases "signup_findOne b s req_body :: 'j response + doc")
    case (Inl r)
    then show ?thesis by (simp add: out_def signup_def)
  next
    case (Inr d)
    then have o: "out = signup_save s d" by (simp add: out_def signup_def)
    obtain s' res where sr: "signup_save s d = (s', res :: 'j response)"
      by (cases "signup_save s d :: store \<times> 'j response")
    from signup_save_cases[OF sr] st o sr show ?thesis by (auto simp: json_def)
  qed
qed

theorem signup_duplicate_and_first_witness:
  "connected alice_store
   \<and> signup_body' ''email'' \<in> Some ` user.email ` set (users alice_store)
   \<and> signup example_bcrypt alice_store signup_body'
        = (alice_store, (json 400 (Message ''User already exists'') :: unit response))
   \<and> connected empty_store
   \<and> signup_body ''email'' \<notin> Some ` user.email ` set (users empty_store)
   \<and> signup_body ''firstName'' = Some ''A'' \<and> ''A'' \<noteq> []
   \<and> signup_body ''lastName'' = Some ''B'' \<and> ''B'' \<noteq> []
   \<and> signup_body ''email'' = Some ''a@x.com'' \<and> ''a@x.com'' \<noteq> []
   \<and> signup_body ''password'' = Some ''pw1'' \<and> hash example_bcrypt ''pw1'' 10 \<noteq> []
   \<and> signup example_bcrypt empty_store signup_body
        = (alice_store, (json 201 (Message ''User registered successfully'') :: unit response))
   \<and> status (snd (signup example_bcrypt alice_store signup_body' :: store \<times> unit response)) \<noteq> 201
   \<and> fst (signup example_bcrypt alice_store signup_body' :: store \<times> unit response) = alice_store"
proof -
  have c1: "connected alice_store" by (simp add: alice_store_def)
  have c0: "connected empty_store" by (simp add: empty_store_def)
  have dup: "signup_body' ''email'' \<in> Some ` user.email ` set (users alice_store)"
    by (simp add: signup_body'_def alice_store_def alice_def)
  have new: "signup_body ''email'' \<notin> Some ` user.email ` set (users empty_store)"
    by (simp add: empty_store_def)
  have fields: "signup_body ''firstName'' = Some ''A'' \<and> ''A'' \<noteq> []
      \<and> signup_body ''lastName'' = Some ''B'' \<and> ''B'' \<noteq> []
      \<and> signup_body ''email'' = Some ''a@x.com'' \<and> ''a@x.com'' \<noteq> []
      \<and> signup_body ''password'' = Some ''pw1'' \<and> hash example_bcrypt ''pw1'' 10 \<noteq> []"
    by (simp add: signup_body_def example_bcrypt_def example_hash_def)
  have st: "empty_store\<lparr>users := users empty_store @ [\<lparr>firstName = ''A'', lastName = ''B'',
               email = ''a@x.com'', password = hash example_bcrypt ''pw1'' 10\<rparr>]\<rparr> = alice_store"
    by (simp add: empty_store_def alice_store_def alice_def example_bcrypt_def example_hash_def)
  note t1 = signup_duplicate_and_first
      [OF c1, where req_body = signup_body' and b = example_bcrypt and 'j = unit]
  note t0 = signup_duplicate_and_first
      [OF c0, where req_body = signup_body and b = example_bcrypt and 'j = unit
         and fn = "''A''" and ln = "''B''" and e = "''a@x.com''" and p = "''pw1''"]
  from t1 dup have 1: "signup example_bcrypt alice_store signup_body'
        = (alice_store, (json 400 (Message ''User already exists'') :: unit response))"
    by blast
  from t0 new fields st have 2: "signup example_bcrypt empty_store signup_body
        = (alice_store, (json 201 (Message ''User registered successfully'') :: unit response))"
    by simp
  from 1 have 3:
    "status (snd (signup example_bcrypt alice_store signup_body' :: store \<times> unit response)) \<noteq> 201"
    by (simp add: json_def)
  from t1 3 have 4:
    "fst (signup example_bcrypt alice_store signup_body' :: store \<times> unit response) = alice_store"
    by blast
  show ?thesis using c1 c0 dup new fields 1 2 3 4 by blast
qed

text \<open>
  The claim C2 as worded fails on two inputs: a first registration whose payload lacks
  the last name is refused by the schema and answered with 500, and a registration for
  a stored email on a store that cannot be reached is answered with 500, not 400.
\<close>

theorem signup_every_payload_counterexample:
  "connected empty_store \<and> users empty_store = []
   \<and> signup example_bcrypt empty_store (signup_body(''lastName'' := None))
       = (empty_store, (\<lparr>status = 500, body = Message ''Error registering user.''\<rparr> :: unit response))
   \<and> \<not> connected down_store \<and> users down_store = [alice] \<and> user.email alice = ''a@x.com''
   \<and> signup_body ''email'' = Some ''a@x.com''
   \<and> signup example_bcrypt down_store signup_body
       = (down_store, (\<lparr>status = 500, body = Message ''Error registering user.''\<rparr> :: unit response))"
  by (simp add: signup_def signup_findOne_def signup_save_def User_findOne_def
        User_save_def User_validate_def required_def bcrypt_hash_def example_bcrypt_def
        example_hash_def empty_store_def down_store_def alice_def signup_body_def json_def)

text \<open>
  C8, as the code has it. The claim reads: a duplicate-key error at insert time is
  answered like the duplicate found by the pre-check, with 400. The handler has one
  \<^verbatim>\<open>catch\<close> block for every failure, so the claim holds in this form. A
  duplicate-key error of the insert means that the store is reachable and holds the
  email; the store is then left unchanged and the response is 500 with the message
  \<^verbatim>\<open>Error registering user.\<close> The same holds whenever the lookup (on \<open>s1\<close>)
  found no User and the email is stored by the time of the insert (on \<open>s2\<close>). The
  insert step never answers 400: a 400 comes from the lookup step alone, carries the
  message \<^verbatim>\<open>User already exists\<close>, and means that the email was stored at the
  time of the lookup.
\<close>

theorem signup_late_duplicate_is_500:
  fixes b :: bcrypt and s1 s2 :: store and req_body d :: doc and r :: "'j response"
  shows "(User_save s2 d = Inl DuplicateKeyError \<longrightarrow>
            connected s2 \<and> d ''email'' \<in> Some ` user.email ` set (users s2)
            \<and> signup_save s2 d = (s2, (json 500 (Message ''Error registering user.'') :: 'j response)))
       \<and> (signup_findOne b s1 req_body = (Inr d :: 'j response + doc) \<longrightarrow>
            req_body ''email'' \<in> Some ` user.email ` set (users s2) \<longrightarrow>
            signup_save s2 d = (s2, (json 500 (Message ''Error registering user.'') :: 'j response)))
       \<and> status (snd (signup_save s2 d :: store \<times> 'j response)) \<noteq> 400
       \<and> (signup_findOne b s1 req_body = Inl r \<longrightarrow> status r = 400 \<longrightarrow>
            connected s1 \<and> req_body ''email'' \<in> Some ` user.email ` set (users s1)
            \<and> r = json 400 (Message ''User already exists''))
       \<and> (status (snd (signup b s1 req_body :: store \<times> 'j response)) = 400 \<longrightarrow>
            connected s1 \<and> req_body ''email'' \<in> Some ` user.email ` set (users s1))"
proof (intro conjI impI)
  assume dk: "User_save s2 d = Inl DuplicateKeyError"
  then show "connected s2" "d ''email'' \<in> Some ` user.email ` set (users s2)"
    by (auto simp: User_save_def User_validate_def required_def split: if_splits option.splits)
  from dk show "signup_save s2 d = (s2, (json 500 (Message ''Error registering user.'') :: 'j response))"
    by (simp add: signup_save_def)
next
  assume f: "signup_findOne b s1 req_body = (Inr d :: 'j response + doc)"
    and e: "req_body ''email'' \<in> Some ` user.email ` set (users s2)"
  from signup_findOne_cases[OF f] have de: "d ''email'' = req_body ''email''" by auto
  obtain s' res where sv: "signup_save s2 d = (s', res :: 'j response)"
    by (cases "signup_save s2 d :: store \<times> 'j response")
  from signup_save_cases[OF sv] User_save_Inr[of s2 d s'] de e sv
  show "signup_save s2 d = (s2, (json 500 (Message ''Error registering user.'') :: 'j response))"
    by auto
next
  obtain s' res where sv: "signup_save s2 d = (s', res :: 'j response)"
    by (cases "signup_save s2 d :: store \<times> 'j response")
  from signup_save_cases[OF sv] sv
  show "status (snd (signup_save s2 d :: store \<times> 'j response)) \<noteq> 400"
    by (auto simp: json_def)
next
  assume f: "signup_findOne b s1 req_body = Inl r" and st: "status r = 400"
  from signup_400[OF f st]
  show "connected s1" "req_body ''email'' \<in> Some ` user.email ` set (users s1)"
    "r = json 400 (Message ''User already exists'')"
    by simp_all
next
  assume st: "status (snd (signup b s1 req_body :: store \<times> 'j response)) = 400"
  have "\<exists>r. signup_findOne b s1 req_body = (Inl r :: 'j response + doc) \<and> status r = 400"
  proof (cases "signup_findOne b s1 req_body :: 'j response + doc")
    case (Inl r)
    with st show ?thesis by (simp add: signup_def)
  next
    case (Inr d')
    obtain s' res where sv: "signup_save s1 d' = (s', res :: 'j response)"
      by (cases "signup_save s1 d' :: store \<times> 'j response")
    from signup_save_cases[OF sv] sv st Inr show ?thesis
      by (auto simp: signup_def json_def)
  qed
  then show "connected s1" "req_body ''email'' \<in> Some ` user.email ` set (users s1)"
    by (auto dest: signup_400)
qed

theorem signup_late_duplicate_is_500_witness:
  "User_save alice_store carol_doc = Inl DuplicateKeyError
   \<and> connected alice_store
   \<and> carol_doc ''email'' \<in> Some ` user.email ` set (users alice_store)
   \<and> signup_findOne example_bcrypt empty_store signup_body'
        = (Inr carol_doc :: unit response + doc)
   \<and> signup_body' ''email'' \<in> Some ` user.email ` set (users alice_store)
   \<and> signup_save alice_store carol_doc
        = (alice_store, (json 500 (Message ''Error registering user.'') :: unit response))
   \<and> status (snd (signup_save alice_store carol_doc :: store \<times> unit response)) \<noteq> 400
   \<and> signup_findOne example_bcrypt alice_store signup_body'
        = Inl (json 400 (Message ''User already exists'') :: unit response)
   \<and> status (json 400 (Message ''User already exists'') :: unit response) = 400
   \<and> status (snd (signup example_bcrypt alice_store signup_body' :: store \<times> unit response)) = 400"
proof -
  have h: "User_save alice_store carol_doc = Inl DuplicateKeyError"
    by (simp add: User_save_def User_validate_def required_def alice_store_def alice_def
        carol_doc_def)
  have f: "signup_findOne example_bcrypt empty_store signup_body'
        = (Inr carol_doc :: unit response + doc)"
    by (simp add: signup_findOne_def User_findOne_def bcrypt_hash_def example_bcrypt_def
        example_hash_def empty_store_def signup_body'_def carol_doc_def)
  have e: "signup_body' ''email'' \<in> Some ` user.email ` set (users alice_store)"
    by (simp add: signup_body'_def alice_store_def alice_def)
  have g: "signup_findOne example_bcrypt alice_store signup_body'
        = Inl (json 400 (Message ''User already exists'') :: unit response)"
    by (simp add: signup_findOne_def User_findOne_def alice_store_def alice_def
        signup_body'_def)
  have st: "status (json 400 (Message ''User already exists'') :: unit response) = 400"
    by (simp add: json_def)
  from g st have sg:
    "status (snd (signup example_bcrypt alice_store signup_body' :: store \<times> unit response)) = 400"
    by (simp add: signup_def)
  note t = signup_late_duplicate_is_500
      [where ?s1.0 = empty_store and ?s2.0 = alice_store and d = carol_doc
         and b = example_bcrypt and req_body = signup_body' and 'j = unit]
  note t' = signup_late_duplicate_is_500
      [where ?s1.0 = alice_store and ?s2.0 = alice_store and d = carol_doc
         and b = example_bcrypt and req_body = signup_body' and 'j = unit
         and r = "json 400 (Message ''User already exists'')"]
  from t h have 1: "connected alice_store
     \<and> carol_doc ''email'' \<in> Some ` user.email ` set (users alice_store)
     \<and> signup_save alice_store carol_doc
        = (alice_store, (json 500 (Message ''Error registering user.'') :: unit response))"
    by blast
  from t f e have 2: "signup_save alice_store carol_doc
        = (alice_store, (json 500 (Message ''Error registering user.'') :: unit response))"
    by blast
  from t have 3:
    "status (snd (signup_save alice_store carol_doc :: store \<times> unit response)) \<noteq> 400"
    by blast
  from t' g st sg have 4: "connected alice_store
     \<and> signup_body' ''email'' \<in> Some ` user.email ` set (users alice_store)"
    by blast
  show ?thesis using h f e g st sg 1 2 3 4 by blast
qed


text \<open>
  The claim C8 as worded fails on two registrations for one email whose lookups both
  run before either insert: the first insert succeeds, the second is rejected by the
  unique index and answered with 500, where the pre-check on the same store answers 400.
\<close>

theorem signup_race_counterexample:
  "signup_findOne example_bcrypt empty_store signup_body = (Inr alice_doc :: unit response + doc)
   \<and> signup_findOne example_bcrypt empty_store signup_body' = (Inr carol_doc :: unit response + doc)
   \<and> signup_save empty_store alice_doc
       = (alice_store, (\<lparr>status = 201, body = Message ''User registered successfully''\<rparr> :: unit response))
   \<and> User_save alice_store carol_doc = Inl DuplicateKeyError
   \<and> signup_save alice_store carol_doc
       = (alice_store, (\<lparr>status = 500, body = Message ''Error registering user.''\<rparr> :: unit response))
   \<and> signup example_bcrypt alice_store signup_body'
       = (alice_store, (\<lparr>status = 400, body = Message ''User already exists''\<rparr> :: unit response))"
  by (simp add: signup_def signup_findOne_def signup_save_def User_findOne_def
        User_save_def User_validate_def required_def bcrypt_hash_def example_bcrypt_def
        example_hash_def empty_store_def alice_store_def alice_def signup_body_def
        signup_body'_def alice_doc_def carol_doc_def json_def)

section \<open>Contact messages\<close>

text \<open>
  C6: when a contact submission succeeds (status 201), the listing that follows it on
  the resulting store succeeds with status 200, and the sequence it returns contains a
  Contact with the submitted name, email and message.
\<close>

theorem contact_submit_then_listAll:
  assumes "contact_post now s req_body = (s', res :: 'j response)" and "status res = 201"
  shows "\<exists>n e m cs. req_body ''name'' = Some n \<and> req_body ''email'' = Some e
           \<and> req_body ''message'' = Some m
           \<and> contact_get s' = (json 200 (Contacts cs) :: 'j response)
           \<and> (\<exists>c \<in> set cs. name c = n \<and> contact.email c = e \<and> message c = m)"
  using assms
  by (auto simp: contact_post_def contact_get_def Contact_save_def Contact_validate_def
      Contact_find_def required_def json_def Let_def split: option.splits if_splits)

theorem contact_submit_then_listAll_witness:
  "contact_post 5 empty_store contact_body
     = (\<lparr>connected = True, users = [], contacts = [\<lparr>name = ''A'', email = ''a@x.com'',
          message = ''hello'', createdAt = 5, updatedAt = 5\<rparr>]\<rparr>,
        (json 201 (Message ''Contact message saved successfully.'') :: unit response))
   \<and> status (json 201 (Message ''Contact message saved successfully.'') :: unit response) = 201
   \<and> (\<exists>cs. contact_get \<lparr>connected = True, users = [], contacts = [\<lparr>name = ''A'',
          email = ''a@x.com'', message = ''hello'', createdAt = 5, updatedAt = 5\<rparr>]\<rparr>
         = (json 200 (Contacts cs) :: unit response)
       \<and> (\<exists>c \<in> set cs. name c = ''A'' \<and> contact.email c = ''a@x.com''
             \<and> message c = ''hello''))"
proof -
  have r: "contact_post 5 empty_store contact_body
     = (\<lparr>connected = True, users = [], contacts = [\<lparr>name = ''A'', email = ''a@x.com'',
          message = ''hello'', createdAt = 5, updatedAt = 5\<rparr>]\<rparr>,
        (json 201 (Message ''Contact message saved successfully.'') :: unit response))"
    by (simp add: contact_post_def Contact_save_def Contact_validate_def required_def
        empty_store_def contact_body_def)
  have st: "status (json 201 (Message ''Contact message saved successfully.'') :: unit response) = 201"
    by (simp add: json_def)
  have b: "contact_body ''name'' = Some ''A'' \<and> contact_body ''email'' = Some ''a@x.com''
           \<and> contact_body ''message'' = Some ''hello''"
    by (simp add: contact_body_def)
  from contact_submit_then_listAll[OF r st] b have
    "\<exists>cs. contact_get \<lparr>connected = True, users = [], contacts = [\<lparr>name = ''A'',
          email = ''a@x.com'', message = ''hello'', createdAt = 5, updatedAt = 5\<rparr>]\<rparr>
         = (json 200 (Contacts cs) :: unit response)
       \<and> (\<exists>c \<in> set cs. name c = ''A'' \<and> contact.email c = ''a@x.com''
             \<and> message c = ''hello'')"
    by force
  with r st show ?thesis by blast
qed

section \<open>The prediction proxy\<close>

lemma predict_payload_eq:
  "predict_payload req_body k = (if k \<in> set predict_fields then req_body k else None)"
  by (auto simp: predict_payload_def predict_fields_def)

lemma predict_payload_cong:
  assumes "\<forall>k \<in> set predict_fields. body1 k = body2 k"
  shows "predict_payload body1 = predict_payload body2"
proof
  fix k
  from assms show "predict_payload body1 k = predict_payload body2 k"
    by (simp add: predict_payload_eq)
qed


lemma dispatchRequest_first:
  "dispatchRequest net left req = (sent, result) \<Longrightarrow>
     sent \<noteq> [] \<and> hd sent = req \<and> length sent \<le> Suc left"
proof (induction left arbitrary: req sent result)
  case 0
  then show ?case by (auto split: option.splits)
next
  case (Suc left)
  show ?case
  proof (cases "redirected (net req)")
    case None
    with Suc.prems show ?thesis by auto
  next
    case (Some st_target)
    obtain sent' result' where
      r: "dispatchRequest net left (redirect req (fst st_target) (snd st_target)) = (sent', result')"
      by (cases "dispatchRequest net left (redirect req (fst st_target) (snd st_target))")
    with Suc.prems Some have "sent = req # sent'" by auto
    with Suc.IH[OF r] show ?thesis by auto
  qed
qed



lemma dispatchRequest_data:
  "dispatchRequest net left req = (sent, result) \<Longrightarrow> r \<in> set sent \<Longrightarrow>
     data r = None \<or> data r = data req"
proof (induction left arbitrary: req sent result)
  case 0
  then show ?case by (auto split: option.splits)
next
  case (Suc left)
  show ?case
  proof (cases "redirected (net req)")
    case None
    with Suc.prems show ?thesis by auto
  next
    case (Some st_target)
    obtain sent' result' where
      d: "dispatchRequest net left (redirect req (fst st_target) (snd st_target)) = (sent', result')"
      by (cases "dispatchRequest net left (redirect req (fst st_target) (snd st_target))")
    with Suc.prems Some have s: "sent = req # sent'" by auto
    have "data (redirect req (fst st_target) (snd st_target)) = None
          \<or> data (redirect req (fst st_target) (snd st_target)) = data req"
      by (simp add: redirect_def)
    with Suc.IH[OF d] Suc.prems(2) s show ?thesis by auto
  qed
qed

lemma dispatchRequest_numeral:
  "dispatchRequest net (numeral k) req =
     (case redirected (net req) of
        Some st_target \<Rightarrow>
          (let (sent, result) =
                 dispatchRequest net (pred_numeral k) (redirect req (fst st_target) (snd st_target))
           in (req # sent, result))
      | None \<Rightarrow> ([req], settle (net req)))"
  by (simp add: numeral_eq_Suc)

lemma predict_dispatch:
  "predict ax req_body = (sent, res) \<Longrightarrow>
     \<exists>result. dispatchRequest (adapter ax) (maxRedirects ax)
        \<lparr>http_method = ''POST'', url = ''http://localhost:8000/predict'',
          data = Some (predict_payload req_body)\<rparr> = (sent, result)
      \<and> res = (case result of
                 Inr response_data \<Rightarrow> json 200 (Data response_data)
               | Inl err \<Rightarrow> json 500 (Message ''Error processing prediction request''))"
  by (auto simp: predict_def axios_post_def predict_url_def Let_def split: prod.splits)





text \<open>
  C10: the body the handler sends holds each of the six named fields with the value it
  has in the incoming body and no other field. Two incoming bodies that agree on the six
  fields give the same requests and the same response, the first request is that body
  sent by POST to the fixed address whatever the client is, and every request of the
  call carries either that body or none.
\<close>

theorem predict_forwards_only_named_fields:
  fixes ax ax' :: "'j axios"
  assumes "\<forall>k \<in> set predict_fields. body1 k = body2 k"
  shows "predict ax body1 = predict ax body2
       \<and> hd (fst (predict ax body1))
           = \<lparr>http_method = ''POST'', url = ''http://localhost:8000/predict'',
              data = Some (predict_payload body1)\<rparr>
       \<and> hd (fst (predict ax' body2)) = hd (fst (predict ax body1))
       \<and> (\<forall>k. predict_payload body1 k = (if k \<in> set predict_fields then body1 k else None))
       \<and> (\<forall>r \<in> set (fst (predict ax body1)).
             data r = None \<or> data r = Some (predict_payload body1))"
proof -
  note c = predict_payload_cong[OF assms]
  have 1: "predict ax body1 = predict ax body2" by (simp add: predict_def c)
  have h: "hd (fst (predict a body))
           = \<lparr>http_method = ''POST'', url = ''http://localhost:8000/predict'',
              data = Some (predict_payload body)\<rparr>" for a :: "'j axios" and body
  proof -
    obtain sent res where p: "predict a body = (sent, res)" by (cases "predict a body")
    from predict_dispatch[OF p] obtain result where
      "dispatchRequest (adapter a) (maxRedirects a)
        \<lparr>http_method = ''POST'', url = ''http://localhost:8000/predict'',
          data = Some (predict_payload body)\<rparr> = (sent, result)" by blast
    from dispatchRequest_first[OF this] p show ?thesis by simp
  qed
  have 4: "\<forall>r \<in> set (fst (predict ax body1)).
             data r = None \<or> data r = Some (predict_payload body1)"
  proof
    fix r assume r: "r \<in> set (fst (predict ax body1))"
    obtain sent res where p: "predict ax body1 = (sent, res)" by (cases "predict ax body1")
    from predict_dispatch[OF p] obtain result where
      "dispatchRequest (adapter ax) (maxRedirects ax)
        \<lparr>http_method = ''POST'', url = ''http://localhost:8000/predict'',
          data = Some (predict_payload body1)\<rparr> = (sent, result)" by blast
    from dispatchRequest_data[OF this, of r] r p
    show "data r = None \<or> data r = Some (predict_payload body1)" by simp
  qed
  have 2: "hd (fst (predict ax' body2)) = hd (fst (predict ax body1))"
    by (simp only: h c)
  have 3: "\<forall>k. predict_payload body1 k = (if k \<in> set predict_fields then body1 k else None)"
    by (simp only: predict_payload_eq) simp
  from 1 h[of ax body1] 2 3 4 show ?thesis by blast
qed

theorem predict_forwards_only_named_fields_witness:
  "predict_body ''age'' = predict_body' ''age''
   \<and> predict_body ''sex'' = predict_body' ''sex''
   \<and> predict_body ''bmi'' = predict_body' ''bmi''
   \<and> predict_body ''children'' = predict_body' ''children''
   \<and> predict_body ''smoker'' = predict_body' ''smoker''
   \<and> predict_body ''region'' = predict_body' ''region''
   \<and> predict_body ''admin'' = Some ''true'' \<and> predict_body' ''admin'' = None
   \<and> predict axios_redirect predict_body = predict axios_redirect predict_body'
   \<and> hd (fst (predict axios_redirect predict_body))
       = \<lparr>http_method = ''POST'', url = ''http://localhost:8000/predict'',
          data = Some (predict_payload predict_body)\<rparr>
   \<and> hd (fst (predict axios_ok predict_body')) = hd (fst (predict axios_redirect predict_body))
   \<and> predict_payload predict_body ''age'' = Some ''41''
   \<and> predict_payload predict_body ''admin'' = None
   \<and> fst (predict axios_redirect predict_body) ! Suc 0
        \<in> set (fst (predict axios_redirect predict_body))
   \<and> data (fst (predict axios_redirect predict_body) ! Suc 0)
        = Some (predict_payload predict_body)"
proof -
  have e: "predict_body ''age'' = predict_body' ''age''
     \<and> predict_body ''sex'' = predict_body' ''sex''
     \<and> predict_body ''bmi'' = predict_body' ''bmi''
     \<and> predict_body ''children'' = predict_body' ''children''
     \<and> predict_body ''smoker'' = predict_body' ''smoker''
     \<and> predict_body ''region'' = predict_body' ''region''"
    by (simp add: predict_body_def predict_body'_def)
  then have h: "\<forall>k \<in> set predict_fields. predict_body k = predict_body' k"
    by (simp add: predict_fields_def)
  have d: "predict_body ''admin'' = Some ''true'' \<and> predict_body' ''admin'' = None"
    by (simp add: predict_body_def predict_body'_def)
  have k: "''age'' \<in> set predict_fields \<and> ''admin'' \<notin> set predict_fields
           \<and> predict_body ''age'' = Some ''41''"
    by (simp add: predict_fields_def predict_body_def)
  have len: "length (fst (predict axios_redirect predict_body)) = 2"
    by (simp add: predict_def axios_post_def predict_url_def axios_redirect_def
        net_redirect_def redirected_def redirect_def dispatchRequest_numeral Let_def)
  then have m: "fst (predict axios_redirect predict_body) ! Suc 0
        \<in> set (fst (predict axios_redirect predict_body))"
    by simp
  have nn: "data (fst (predict axios_redirect predict_body) ! Suc 0) \<noteq> None"
    by (simp add: predict_def axios_post_def predict_url_def axios_redirect_def
        net_redirect_def redirected_def redirect_def dispatchRequest_numeral Let_def)
  note t = predict_forwards_only_named_fields[OF h, of axios_redirect axios_ok]
  from t have 1: "predict axios_redirect predict_body = predict axios_redirect predict_body'"
    and 2: "hd (fst (predict axios_redirect predict_body))
       = \<lparr>http_method = ''POST'', url = ''http://localhost:8000/predict'',
          data = Some (predict_payload predict_body)\<rparr>"
    and 3: "hd (fst (predict axios_ok predict_body')) = hd (fst (predict axios_redirect predict_body))"
    by blast+
  from t k have 4: "predict_payload predict_body ''age'' = Some ''41''
      \<and> predict_payload predict_body ''admin'' = None"
    by simp
  from t have "\<forall>r \<in> set (fst (predict axios_redirect predict_body)).
      data r = None \<or> data r = Some (predict_payload predict_body)"
    by blast
  with m nn have 5: "data (fst (predict axios_redirect predict_body) ! Suc 0)
        = Some (predict_payload predict_body)"
    by auto
  show ?thesis using e d 1 2 3 4 m 5 by blast
qed

section \<open>The Users collection over all routes\<close>

lemma signup_users:
  assumes "signup b s req_body = (s', res :: 'j response)"
  shows "users s' = users s \<or> (\<exists>u. users s' = users s @ [u])"
proof (cases "signup_findOne b s req_body :: 'j response + doc")
  case (Inl r)
  with assms show ?thesis by (simp add: signup_def)
next
  case (Inr d)
  with assms have sv: "signup_save s d = (s', res)" by (simp add: signup_def)
  from signup_save_cases[OF sv] show ?thesis
    by (auto dest: User_save_Inr)
qed

lemma contact_post_users:
  "contact_post now s req_body = (s', res :: 'j response) \<Longrightarrow> users s' = users s"
  by (auto simp: contact_post_def Contact_save_def Let_def split: sum.splits if_splits)

text \<open>The unique index at work: no request makes two stored Users share an email.\<close>

lemma handle_distinct_emails:
  fixes req :: "'j request"
  assumes "handle b ax now s req = (s', res)" and "distinct (map user.email (users s))"
  shows "distinct (map user.email (users s'))"
proof (cases req)
  case (POST_signup body)
  with assms(1) have sg: "signup b s body = (s', res)" by simp
  show ?thesis
  proof (cases "signup_findOne b s body :: 'j response + doc")
    case (Inl r)
    with sg assms(2) show ?thesis by (simp add: signup_def)
  next
    case (Inr d)
    with sg have sv: "signup_save s d = (s', res)" by (simp add: signup_def)
    from signup_save_cases[OF sv] assms(2) show ?thesis
      by (auto dest!: User_save_Inr)
  qed
qed (use assms in \<open>auto dest: contact_post_users\<close>)

text \<open>
  C9: whatever request is handled, the Users collection afterwards starts with the
  Users collection before, every stored User at its position and unmodified; at most one
  User is added; and a request other than a signup leaves the collection as it was.
\<close>

theorem users_never_updated_or_deleted:
  fixes req :: "'j request"
  assumes "handle b ax now s req = (s', res)"
  shows "prefix (users s) (users s')
       \<and> length (users s') \<le> Suc (length (users s))
       \<and> ((\<forall>d. req \<noteq> POST_signup d) \<longrightarrow> users s' = users s)
       \<and> (\<forall>i < length (users s). users s' ! i = users s ! i)"
proof -
  have "users s' = users s \<or> (\<exists>u. users s' = users s @ [u])"
    using assms by (cases req) (auto dest: signup_users contact_post_users)
  moreover have "(\<forall>d. req \<noteq> POST_signup d) \<longrightarrow> users s' = users s"
    using assms by (cases req) (auto dest: contact_post_users)
  ultimately show ?thesis by (auto simp: nth_append)
qed

theorem users_never_updated_or_deleted_witness:
  "handle example_bcrypt axios_ok 5 alice_store (POST_signup signup_body')
     = (alice_store, json 400 (Message ''User already exists''))
   \<and> prefix (users alice_store) (users alice_store)
   \<and> handle example_bcrypt axios_ok 5 empty_store (POST_signup signup_body)
     = (alice_store, json 201 (Message ''User registered successfully''))
   \<and> prefix (users empty_store) (users alice_store)
   \<and> length (users alice_store) \<le> Suc (length (users empty_store))
   \<and> handle example_bcrypt axios_ok 5 alice_store (POST_login login_body)
     = (alice_store, json 200 (MessageName ''Login successful'' ''A''))
   \<and> (\<forall>d. POST_login login_body \<noteq> (POST_signup d :: string request))
   \<and> (0::nat) < length (users alice_store)
   \<and> users alice_store ! 0 = alice"
proof -
  have 1: "handle example_bcrypt axios_ok 5 alice_store (POST_signup signup_body')
     = (alice_store, json 400 (Message ''User already exists''))"
    by (simp add: signup_def signup_findOne_def User_findOne_def alice_store_def alice_def
        signup_body'_def)
  have 2: "handle example_bcrypt axios_ok 5 empty_store (POST_signup signup_body)
     = (alice_store, json 201 (Message ''User registered successfully''))"
    by (simp add: signup_def signup_findOne_def signup_save_def User_findOne_def
        User_save_def User_validate_def required_def bcrypt_hash_def example_bcrypt_def
        example_hash_def empty_store_def alice_store_def alice_def signup_body_def)
  have 3: "handle example_bcrypt axios_ok 5 alice_store (POST_login login_body)
     = (alice_store, json 200 (MessageName ''Login successful'' ''A''))"
    by (simp add: login_def User_findOne_def bcrypt_compare_def example_bcrypt_def
        example_compare_def alice_store_def alice_def login_body_def)
  have 4: "\<forall>d. POST_login login_body \<noteq> (POST_signup d :: string request)" by simp
  have 5: "(0::nat) < length (users alice_store)" by (simp add: alice_store_def)
  from users_never_updated_or_deleted[OF 1] users_never_updated_or_deleted[OF 2]
    users_never_updated_or_deleted[OF 3] 1 2 3 4 5
  show ?thesis by (simp add: alice_store_def)
qed

end
